theory Spec2Isabelle
  imports Main "HOL-Library.Word"
begin

section \<open>The configuration record of config.go\<close>

text \<open>
  Go's \<^verbatim>\<open>time.Duration\<close> is an \<^verbatim>\<open>int64\<close> counting nanoseconds. \<^verbatim>\<open>int\<close> is taken
  at its 64-bit width. Both are compared as signed numbers (\<open><s\<close>, \<open>\<le>s\<close>).
\<close>

type_synonym Duration = "64 word"
type_synonym go_int = "64 word"

text \<open>
  \<^verbatim>\<open>type Config struct\<close>. The interface-typed and function-typed fields
  (\<^verbatim>\<open>Transport\<close>, \<^verbatim>\<open>Logger\<close>, \<^verbatim>\<open>UID\<close>, \<^verbatim>\<open>Now\<close>, \<^verbatim>\<open>RetryAfter\<close>) are references that
  the code only ever compares with \<^verbatim>\<open>nil\<close> and overwrites: each is an optional handle of an
  abstract type, \<open>None\<close> being \<^verbatim>\<open>nil\<close>.
\<close>

record ('t, 'l, 'u, 'n, 'r) Config =
  Endpoint :: string
  Interval :: Duration
  Transport :: "'t option"
  Logger :: "'l option"
  BatchSize :: go_int
  Verbose :: bool
  UID :: "'u option"
  Now :: "'n option"
  RetryAfter :: "'r option"

text \<open>
  What \<^verbatim>\<open>makeConfig\<close> reads from outside config.go, taken as a parameter: the package
  variable \<^verbatim>\<open>http.DefaultTransport\<close> and the result of \<^verbatim>\<open>newDefaultLogger()\<close> are
  interface values (nothing in config.go says they are not \<^verbatim>\<open>nil\<close>, so they are optional
  handles); \<^verbatim>\<open>uid\<close>, \<^verbatim>\<open>time.Now\<close> and the method value \<^verbatim>\<open>backo.DefaultBacko().Duration\<close>
  are function values, which are never \<^verbatim>\<open>nil\<close>.
\<close>

record ('t, 'l, 'u, 'n, 'r) Externals =
  http_DefaultTransport :: "'t option"
  newDefaultLogger :: "'l option"
  uid :: 'u
  time_Now :: 'n
  backo_DefaultBacko_Duration :: 'r

text \<open>The \<^verbatim>\<open>interface{}\<close> stored in \<^verbatim>\<open>ConfigError.Value\<close>: a value tagged with its dynamic type.\<close>

datatype go_value = DurationValue Duration | IntValue go_int

text \<open>
  Modelled from the spec: the declaration of \<^verbatim>\<open>ConfigError\<close> is not in config.go; the spec
  says that it carries a human-readable reason, the offending field name and the offending
  value. The three field names are those of the composite literals in \<^verbatim>\<open>validate\<close>.
\<close>

record ConfigError =
  Reason :: string
  Field :: string
  Value :: go_value

definition Second :: Duration where
  "Second = 1000000000"

definition DefaultEndpoint :: string where
  "DefaultEndpoint = ''https://api.segment.io''"

definition DefaultInterval :: Duration where
  "DefaultInterval = 5 * Second"

definition DefaultBatchSize :: go_int where
  "DefaultBatchSize = 250"

text \<open>\<^verbatim>\<open>func (c *Config) validate() error\<close>: \<open>None\<close> is the \<^verbatim>\<open>nil\<close> error.\<close>

definition validate :: "('t, 'l, 'u, 'n, 'r) Config \<Rightarrow> ConfigError option" where
  "validate c =
    (if Interval c <s 0 then
       Some \<lparr>Reason = ''negative time intervals are not supported'',
             Field = ''Interval'',
             Value = DurationValue (Interval c)\<rparr>
     else if BatchSize c <s 0 then
       Some \<lparr>Reason = ''negative batch sizes are not supported'',
             Field = ''BatchSize'',
             Value = IntValue (BatchSize c)\<rparr>
     else None)"

text \<open>
  \<^verbatim>\<open>func makeConfig(c Config) Config\<close>: the argument is a copy, updated by eight
  \<^verbatim>\<open>if\<close> statements in sequence and returned.
\<close>

definition makeConfig ::
  "('t, 'l, 'u, 'n, 'r) Externals \<Rightarrow> ('t, 'l, 'u, 'n, 'r) Config \<Rightarrow> ('t, 'l, 'u, 'n, 'r) Config" where
  "makeConfig ext c0 =
    (let c1 = (if length (Endpoint c0) = 0 then c0\<lparr>Endpoint := DefaultEndpoint\<rparr> else c0);
         c2 = (if Interval c1 = 0 then c1\<lparr>Interval := DefaultInterval\<rparr> else c1);
         c3 = (if Transport c2 = None then c2\<lparr>Transport := http_DefaultTransport ext\<rparr> else c2);
         c4 = (if Logger c3 = None then c3\<lparr>Logger := newDefaultLogger ext\<rparr> else c3);
         c5 = (if BatchSize c4 = 0 then c4\<lparr>BatchSize := DefaultBatchSize\<rparr> else c4);
         c6 = (if UID c5 = None then c5\<lparr>UID := Some (uid ext)\<rparr> else c5);
         c7 = (if Now c6 = None then c6\<lparr>Now := Some (time_Now ext)\<rparr> else c6);
         c8 = (if RetryAfter c7 = None
               then c7\<lparr>RetryAfter := Some (backo_DefaultBacko_Duration ext)\<rparr> else c7)
     in c8)"

text \<open>The zero value of \<^verbatim>\<open>Config\<close>, the composite literal \<^verbatim>\<open>Config{}\<close>.\<close>

definition zeroConfig :: "('t, 'l, 'u, 'n, 'r) Config" where
  "zeroConfig =
    \<lparr>Endpoint = [], Interval = 0, Transport = None, Logger = None, BatchSize = 0,
     Verbose = False, UID = None, Now = None, RetryAfter = None\<rparr>"

text \<open>
  Concrete instances, for the closed statements below: handles numbered by naturals, and
  externals whose five defaults are the handles 100 to 104.
\<close>

type_synonym nat_Config = "(nat, nat, nat, nat, nat) Config"

definition natExternals :: "(nat, nat, nat, nat, nat) Externals" where
  "natExternals =
    \<lparr>http_DefaultTransport = Some 100, newDefaultLogger = Some 101, uid = 102,
     time_Now = 103, backo_DefaultBacko_Duration = 104\<rparr>"

definition customConfig :: nat_Config where
  "customConfig =
    \<lparr>Endpoint = ''https://custom.example.com'', Interval = 2 * Second, Transport = Some 1,
     Logger = Some 2, BatchSize = 10, Verbose = True, UID = Some 3, Now = Some 4,
     RetryAfter = Some 5\<rparr>"

section \<open>Field-wise behaviour of \<open>makeConfig\<close>\<close>


lemma makeConfig_Interval:
  "Interval (makeConfig ext c) = (if Interval c = 0 then DefaultInterval else Interval c)"
  by (auto simp add: makeConfig_def Let_def)



lemma makeConfig_BatchSize:
  "BatchSize (makeConfig ext c) = (if BatchSize c = 0 then DefaultBatchSize else BatchSize c)"
  by (auto simp add: makeConfig_def Let_def)

lemma makeConfig_Verbose: "Verbose (makeConfig ext c) = Verbose c"
  by (auto simp add: makeConfig_def Let_def)






lemma DefaultInterval_not_negative: "\<not> DefaultInterval <s 0"
  by (simp add: DefaultInterval_def Second_def word_sless_alt)


lemma DefaultBatchSize_not_negative: "\<not> DefaultBatchSize <s 0"
  by (simp add: DefaultBatchSize_def word_sless_alt)



lemma sle_0_iff: "(0 \<le>s x) = (\<not> x <s (0::64 word))"
  by (simp add: word_sle_eq word_sless_alt not_less)

lemma minus_Second_negative: "- Second <s 0"
  by (simp add: Second_def word_sless_alt)

lemma minus_five_negative: "(- 5 :: 64 word) <s 0"
  by (simp add: word_sless_alt)

section \<open>\<open>validate\<close>\<close>

text \<open>
  C1. \<open>validate\<close> returns no error exactly when \<open>Interval\<close> and \<open>BatchSize\<close> are both
  non-negative, and returns an error (one \<open>ConfigError\<close>, the result being a single optional
  error) exactly when one of the two is negative.
\<close>

theorem validate_succeeds_iff:
  "(validate c = None \<longleftrightarrow> 0 \<le>s Interval c \<and> 0 \<le>s BatchSize c) \<and>
   ((\<exists>e. validate c = Some e) \<longleftrightarrow> Interval c <s 0 \<or> BatchSize c <s 0)"
  by (simp add: validate_def sle_0_iff)

theorem validate_succeeds_iff_witness:
  "validate (zeroConfig :: nat_Config) = None \<and>
   validate customConfig = None \<and>
   validate ((zeroConfig :: nat_Config)\<lparr>BatchSize := - 5\<rparr>) \<noteq> None"
  using validate_succeeds_iff [of "zeroConfig :: nat_Config"]
    validate_succeeds_iff [of customConfig]
    validate_succeeds_iff [of "(zeroConfig :: nat_Config)\<lparr>BatchSize := - 5\<rparr>"]
  by (simp add: zeroConfig_def customConfig_def Second_def sle_0_iff word_sless_alt)

text \<open>
  C3, as the spec states it, at the record \<open>{Interval: -1s}\<close>: the interval is negative and
  the error's field name is \<open>Interval\<close>, the name of the Go field, not \<open>flushInterval\<close>.
\<close>

theorem validate_Interval_field_name_counterexample:
  "Interval ((zeroConfig :: nat_Config)\<lparr>Interval := - Second\<rparr>) <s 0 \<and>
   map_option Field (validate ((zeroConfig :: nat_Config)\<lparr>Interval := - Second\<rparr>))
     = Some ''Interval'' \<and>
   map_option Field (validate ((zeroConfig :: nat_Config)\<lparr>Interval := - Second\<rparr>))
     \<noteq> Some ''flushInterval''"
  by (simp add: validate_def minus_Second_negative)

text \<open>
  C3, amended. For every record with \<open>Interval < 0\<close>, \<open>validate\<close> fails and the error has the
  reason "negative time intervals are not supported", the field name "Interval" and, as
  value, the record's \<open>Interval\<close>.
\<close>

theorem validate_negative_Interval:
  "Interval c <s 0 \<Longrightarrow>
   validate c = Some \<lparr>Reason = ''negative time intervals are not supported'',
                       Field = ''Interval'',
                       Value = DurationValue (Interval c)\<rparr>"
  by (simp add: validate_def)

theorem validate_negative_Interval_witness:
  "Interval ((zeroConfig :: nat_Config)\<lparr>Interval := - Second\<rparr>) <s 0 \<and>
   validate ((zeroConfig :: nat_Config)\<lparr>Interval := - Second\<rparr>) =
     Some \<lparr>Reason = ''negative time intervals are not supported'',
           Field = ''Interval'',
           Value = DurationValue (- 1000000000)\<rparr>"
  using validate_negative_Interval [of "(zeroConfig :: nat_Config)\<lparr>Interval := - Second\<rparr>"]
  by (simp add: minus_Second_negative) (simp add: Second_def)

text \<open>
  C4, as the spec states it, at the record \<open>{BatchSize: -5}\<close>: the batch size is negative,
  the interval is not, and the error's field name is \<open>BatchSize\<close>, not \<open>batchSize\<close>.
\<close>

theorem validate_BatchSize_field_name_counterexample:
  "BatchSize ((zeroConfig :: nat_Config)\<lparr>BatchSize := - 5\<rparr>) <s 0 \<and>
   0 \<le>s Interval ((zeroConfig :: nat_Config)\<lparr>BatchSize := - 5\<rparr>) \<and>
   map_option Field (validate ((zeroConfig :: nat_Config)\<lparr>BatchSize := - 5\<rparr>))
     = Some ''BatchSize'' \<and>
   map_option Field (validate ((zeroConfig :: nat_Config)\<lparr>BatchSize := - 5\<rparr>))
     \<noteq> Some ''batchSize''"
  by (simp add: validate_def zeroConfig_def minus_five_negative)

text \<open>
  C4, amended. For every record with \<open>BatchSize < 0\<close> and \<open>Interval \<ge> 0\<close>, \<open>validate\<close> fails
  with the field name "BatchSize" (and the batch-size reason and value); when both are
  negative, the one error returned is the one for \<open>Interval\<close>: that check runs first.
\<close>

theorem validate_negative_BatchSize:
  "(BatchSize c <s 0 \<and> 0 \<le>s Interval c \<longrightarrow>
      validate c = Some \<lparr>Reason = ''negative batch sizes are not supported'',
                          Field = ''BatchSize'',
                          Value = IntValue (BatchSize c)\<rparr>) \<and>
   (Interval c <s 0 \<and> BatchSize c <s 0 \<longrightarrow>
      validate c = Some \<lparr>Reason = ''negative time intervals are not supported'',
                          Field = ''Interval'',
                          Value = DurationValue (Interval c)\<rparr>)"
  by (simp add: validate_def sle_0_iff)

theorem validate_negative_BatchSize_witness:
  "BatchSize ((zeroConfig :: nat_Config)\<lparr>BatchSize := - 5\<rparr>) <s 0 \<and>
   0 \<le>s Interval ((zeroConfig :: nat_Config)\<lparr>BatchSize := - 5\<rparr>) \<and>
   validate ((zeroConfig :: nat_Config)\<lparr>BatchSize := - 5\<rparr>) =
     Some \<lparr>Reason = ''negative batch sizes are not supported'',
           Field = ''BatchSize'',
           Value = IntValue (- 5)\<rparr> \<and>
   Interval ((zeroConfig :: nat_Config)\<lparr>Interval := - Second, BatchSize := - 5\<rparr>) <s 0 \<and>
   BatchSize ((zeroConfig :: nat_Config)\<lparr>Interval := - Second, BatchSize := - 5\<rparr>) <s 0 \<and>
   validate ((zeroConfig :: nat_Config)\<lparr>Interval := - Second, BatchSize := - 5\<rparr>) =
     Some \<lparr>Reason = ''negative time intervals are not supported'',
           Field = ''Interval'',
           Value = DurationValue (- 1000000000)\<rparr>"
  using validate_negative_BatchSize [of "(zeroConfig :: nat_Config)\<lparr>BatchSize := - 5\<rparr>"]
    validate_negative_BatchSize
      [of "(zeroConfig :: nat_Config)\<lparr>Interval := - Second, BatchSize := - 5\<rparr>"]
  by (simp add: minus_Second_negative minus_five_negative)
     (simp add: zeroConfig_def Second_def sle_0_iff word_sless_alt)

text \<open>
  C10. The result of \<open>validate\<close> is a function of \<open>Interval\<close> and \<open>BatchSize\<close> alone: two
  records that agree on both get the same result, whatever their other fields (and whatever
  the types of their handles).
\<close>

theorem validate_depends_on_Interval_BatchSize:
  "Interval c = Interval c' \<Longrightarrow> BatchSize c = BatchSize c' \<Longrightarrow> validate c = validate c'"
  by (simp add: validate_def)

theorem validate_depends_on_Interval_BatchSize_witness:
  "Interval ((zeroConfig :: nat_Config)\<lparr>Interval := - Second\<rparr>) =
     Interval (customConfig\<lparr>Interval := - Second, BatchSize := 0\<rparr>) \<and>
   BatchSize ((zeroConfig :: nat_Config)\<lparr>Interval := - Second\<rparr>) =
     BatchSize (customConfig\<lparr>Interval := - Second, BatchSize := 0\<rparr>) \<and>
   (zeroConfig :: nat_Config)\<lparr>Interval := - Second\<rparr> \<noteq>
     customConfig\<lparr>Interval := - Second, BatchSize := 0\<rparr> \<and>
   validate ((zeroConfig :: nat_Config)\<lparr>Interval := - Second\<rparr>) =
     validate (customConfig\<lparr>Interval := - Second, BatchSize := 0\<rparr>)"
  using validate_depends_on_Interval_BatchSize
    [of "(zeroConfig :: nat_Config)\<lparr>Interval := - Second\<rparr>"
        "customConfig\<lparr>Interval := - Second, BatchSize := 0\<rparr>"]
  by (simp add: zeroConfig_def customConfig_def)

section \<open>\<open>makeConfig\<close>\<close>

text \<open>
  C2, as the spec states it, at the record \<open>{Interval: -1s}\<close>: the record that
  \<open>makeConfig\<close> returns still has the negative interval, so it does not satisfy
  \<open>Interval \<ge> 0\<close> and \<open>validate\<close> rejects it.
\<close>

theorem makeConfig_valid_counterexample:
  "\<not> (0 \<le>s Interval (makeConfig natExternals (zeroConfig\<lparr>Interval := - Second\<rparr>)) \<and>
      0 \<le>s BatchSize (makeConfig natExternals (zeroConfig\<lparr>Interval := - Second\<rparr>)))"
proof -
  have "Interval (makeConfig natExternals (zeroConfig\<lparr>Interval := - Second\<rparr>)) = - Second"
    by (simp add: makeConfig_Interval Second_def)
  then show ?thesis
    by (simp add: sle_0_iff minus_Second_negative)
qed

text \<open>
  C2, amended. For every record with \<open>Interval \<ge> 0\<close> and \<open>BatchSize \<ge> 0\<close> (every record
  that \<open>validate\<close> accepts), the record returned by \<open>makeConfig\<close> has \<open>Interval \<ge> 0\<close> and
  \<open>BatchSize \<ge> 0\<close>.
\<close>

theorem makeConfig_valid:
  "0 \<le>s Interval c \<Longrightarrow> 0 \<le>s BatchSize c \<Longrightarrow>
   0 \<le>s Interval (makeConfig ext c) \<and> 0 \<le>s BatchSize (makeConfig ext c)"
  by (simp add: makeConfig_Interval makeConfig_BatchSize sle_0_iff
      DefaultInterval_not_negative DefaultBatchSize_not_negative)

theorem makeConfig_valid_witness:
  "0 \<le>s Interval (zeroConfig :: nat_Config) \<and>
   0 \<le>s BatchSize (zeroConfig :: nat_Config) \<and>
   0 \<le>s Interval (makeConfig natExternals zeroConfig) \<and>
   0 \<le>s BatchSize (makeConfig natExternals zeroConfig)"
  using makeConfig_valid [of "zeroConfig :: nat_Config" natExternals]
  by (simp add: zeroConfig_def)

text \<open>
  C5. \<open>makeConfig\<close> is a total function into \<open>Config\<close> (the Go function has no error
  result), and it leaves a negative \<open>Interval\<close> and a negative \<open>BatchSize\<close> as they are:
  neither is set to zero or to its default.
\<close>

theorem makeConfig_keeps_negative:
  "(Interval c <s 0 \<longrightarrow> Interval (makeConfig ext c) = Interval c) \<and>
   (BatchSize c <s 0 \<longrightarrow> BatchSize (makeConfig ext c) = BatchSize c)"
  by (auto simp add: makeConfig_Interval makeConfig_BatchSize)

theorem makeConfig_keeps_negative_witness:
  "Interval ((zeroConfig :: nat_Config)\<lparr>Interval := - Second, BatchSize := - 5\<rparr>) <s 0 \<and>
   BatchSize ((zeroConfig :: nat_Config)\<lparr>Interval := - Second, BatchSize := - 5\<rparr>) <s 0 \<and>
   Interval (makeConfig natExternals (zeroConfig\<lparr>Interval := - Second, BatchSize := - 5\<rparr>))
     = - 1000000000 \<and>
   BatchSize (makeConfig natExternals (zeroConfig\<lparr>Interval := - Second, BatchSize := - 5\<rparr>))
     = - 5"
  using makeConfig_keeps_negative
    [of "(zeroConfig :: nat_Config)\<lparr>Interval := - Second, BatchSize := - 5\<rparr>" natExternals]
  by (simp add: minus_Second_negative minus_five_negative) (simp add: Second_def)





text \<open>
  C9. \<open>makeConfig\<close> never changes \<open>Verbose\<close>: the result has the input's value, and in
  particular \<open>false\<close> stays \<open>false\<close>, no default being put in its place.
\<close>

theorem makeConfig_Verbose_unchanged:
  "Verbose (makeConfig ext c) = Verbose c \<and>
   Verbose (makeConfig ext (c\<lparr>Verbose := False\<rparr>)) = False"
  by (simp add: makeConfig_Verbose)

end
